theory Spec2Isabelle
  imports Main "HOL-Library.Sublist"
begin

section \<open>Bytes, text and exceptions\<close>

text \<open>
  The client of \<^verbatim>\<open>BLE_TEST_CLIENT.py\<close> exchanges JSON documents over four GATT
  characteristics. A \<^verbatim>\<open>bytes\<close>/\<^verbatim>\<open>bytearray\<close> value is a list of 8-bit characters.
  A Python \<^verbatim>\<open>str\<close> is held as the list of the bytes of its UTF-8 encoding (a lone
  surrogate, which only a JSON \<^verbatim>\<open>\uXXXX\<close> escape can produce, as its three-byte
  form), so that \<^verbatim>\<open>data.decode('utf-8')\<close> checks the bytes and returns them, and
  two \<^verbatim>\<open>str\<close> values are equal exactly when their representations are.
  Exceptions are values: only the class is kept, not the message.
\<close>

type_synonym bytes = string
type_synonym str = string

datatype exn =
    UnicodeDecodeError
  | JSONDecodeError
  | AttributeError
  | TypeError
  | ValueError
  | IndexError
  | KeyError
  | TransportError

definition byte :: "char \<Rightarrow> nat" where
  "byte c = of_char c"

definition in_range :: "nat \<Rightarrow> nat \<Rightarrow> char \<Rightarrow> bool" where
  "in_range lo hi c = (lo \<le> byte c \<and> byte c \<le> hi)"

subsection \<open>\<^verbatim>\<open>bytes.decode('utf-8')\<close>\<close>

text \<open>
  The strict UTF-8 codec: shortest forms only, no surrogates, nothing above U+10FFFF.
  The second byte of a three- or four-byte sequence is restricted by the lead byte.
\<close>

definition cont :: "char \<Rightarrow> bool" where
  "cont c = in_range 0x80 0xBF c"

definition second3 :: "char \<Rightarrow> char \<Rightarrow> bool" where
  "second3 b0 b1 =
     (if byte b0 = 0xE0 then in_range 0xA0 0xBF b1
      else if byte b0 = 0xED then in_range 0x80 0x9F b1
      else cont b1)"

definition second4 :: "char \<Rightarrow> char \<Rightarrow> bool" where
  "second4 b0 b1 =
     (if byte b0 = 0xF0 then in_range 0x90 0xBF b1
      else if byte b0 = 0xF4 then in_range 0x80 0x8F b1
      else cont b1)"

fun utf8_valid :: "bytes \<Rightarrow> bool" where
  "utf8_valid [] = True"
| "utf8_valid (b0 # bs) =
     (if byte b0 < 0x80 then utf8_valid bs
      else if in_range 0xC2 0xDF b0 then
        (case bs of
           b1 # r \<Rightarrow> cont b1 \<and> utf8_valid r
         | _ \<Rightarrow> False)
      else if in_range 0xE0 0xEF b0 then
        (case bs of
           b1 # b2 # r \<Rightarrow> second3 b0 b1 \<and> cont b2 \<and> utf8_valid r
         | _ \<Rightarrow> False)
      else if in_range 0xF0 0xF4 b0 then
        (case bs of
           b1 # b2 # b3 # r \<Rightarrow> second4 b0 b1 \<and> cont b2 \<and> cont b3 \<and> utf8_valid r
         | _ \<Rightarrow> False)
      else False)"

definition decode_utf8 :: "bytes \<Rightarrow> exn + str" where
  "decode_utf8 data = (if utf8_valid data then Inr data else Inl UnicodeDecodeError)"

section \<open>Python values and \<^verbatim>\<open>json.loads\<close>\<close>

text \<open>
  The values \<^verbatim>\<open>json.loads\<close> can return. An integer is unbounded. A float is kept as
  the literal it was read from: sign, decimal digits read as a number, and decimal
  exponent, so \<open>Finite neg m e\<close> stands for the double nearest to \<open>\<plusminus> m * 10 ^ e\<close>.
  A \<^verbatim>\<open>dict\<close> is an association list with distinct keys, in insertion order.
\<close>

datatype pyfloat = Finite bool nat int | NaN | Infinity bool

datatype pyval =
    PNone
  | PBool bool
  | PInt int
  | PFloat pyfloat
  | PStr str
  | PList "pyval list"
  | PDict "(str \<times> pyval) list"

fun dict_set :: "(str \<times> pyval) list \<Rightarrow> str \<Rightarrow> pyval \<Rightarrow> (str \<times> pyval) list" where
  "dict_set [] k v = [(k, v)]"
| "dict_set ((k', v') # d) k v = (if k' = k then (k, v) # d else (k', v') # dict_set d k v)"

text \<open>\<^verbatim>\<open>dict(pairs)\<close>: a repeated key keeps its first position and its last value.\<close>

definition dict_of_pairs :: "(str \<times> pyval) list \<Rightarrow> (str \<times> pyval) list" where
  "dict_of_pairs ps = foldl (\<lambda>d (k, v). dict_set d k v) [] ps"

text \<open>\<^verbatim>\<open>d.get(k, default)\<close> on a dict.\<close>

definition dict_get :: "(str \<times> pyval) list \<Rightarrow> str \<Rightarrow> pyval \<Rightarrow> pyval" where
  "dict_get d k dflt = (case map_of d k of None \<Rightarrow> dflt | Some v \<Rightarrow> v)"

subsection \<open>Scanning strings\<close>

definition is_ws :: "char \<Rightarrow> bool" where
  "is_ws c = (c = CHR '' '' \<or> c = CHR 0x09 \<or> c = CHR 0x0A \<or> c = CHR 0x0D)"

definition skip_ws :: "string \<Rightarrow> string" where
  "skip_ws s = dropWhile is_ws s"

definition is_digit :: "char \<Rightarrow> bool" where
  "is_digit c = in_range 0x30 0x39 c"

definition hexval :: "char \<Rightarrow> nat option" where
  "hexval c =
     (if in_range 0x30 0x39 c then Some (byte c - 0x30)
      else if in_range 0x41 0x46 c then Some (byte c - 0x41 + 10)
      else if in_range 0x61 0x66 c then Some (byte c - 0x61 + 10)
      else None)"

definition hex4 :: "char \<Rightarrow> char \<Rightarrow> char \<Rightarrow> char \<Rightarrow> nat option" where
  "hex4 a b c d =
     (case (hexval a, hexval b, hexval c, hexval d) of
        (Some x3, Some x2, Some x1, Some x0) \<Rightarrow> Some (((x3 * 16 + x2) * 16 + x1) * 16 + x0)
      | _ \<Rightarrow> None)"

text \<open>The UTF-8 form of a code point (for a surrogate, the three-byte form).\<close>

definition utf8_encode :: "nat \<Rightarrow> str" where
  "utf8_encode u =
     (if u < 0x80 then [char_of u]
      else if u < 0x800 then [char_of (0xC0 + u div 64), char_of (0x80 + u mod 64)]
      else if u < 0x10000 then
        [char_of (0xE0 + u div 4096), char_of (0x80 + (u div 64) mod 64),
         char_of (0x80 + u mod 64)]
      else
        [char_of (0xF0 + u div 262144), char_of (0x80 + (u div 4096) mod 64),
         char_of (0x80 + (u div 64) mod 64), char_of (0x80 + u mod 64)])"

text \<open>The one-character escapes of the decoder's \<^verbatim>\<open>BACKSLASH\<close> table.\<close>

definition simple_escape :: "char \<Rightarrow> char option" where
  "simple_escape e =
     (if e = CHR 0x22 then Some (CHR 0x22)
      else if e = CHR 0x5C then Some (CHR 0x5C)
      else if e = CHR ''/'' then Some (CHR ''/'')
      else if e = CHR ''b'' then Some (CHR 0x08)
      else if e = CHR ''f'' then Some (CHR 0x0C)
      else if e = CHR ''n'' then Some (CHR 0x0A)
      else if e = CHR ''r'' then Some (CHR 0x0D)
      else if e = CHR ''t'' then Some (CHR 0x09)
      else None)"

text \<open>
  \<open>unescape s\<close> reads one escape, \<open>s\<close> being the text after the backslash: the
  characters it stands for and how many characters of \<open>s\<close> it used. A high surrogate
  followed by an escaped low surrogate is one code point; any other surrogate stays alone.
\<close>

definition low_surrogate_escape :: "string \<Rightarrow> (nat option) option" where
  "low_surrogate_escape s =
     (case s of
        b # u # a # b' # c # d # _ \<Rightarrow>
          if b = CHR 0x5C \<and> u = CHR ''u'' then
            (case hex4 a b' c d of
               None \<Rightarrow> None
             | Some u2 \<Rightarrow> if 0xDC00 \<le> u2 \<and> u2 \<le> 0xDFFF then Some (Some u2) else Some None)
          else Some None
      | _ \<Rightarrow> Some None)"

definition unescape :: "string \<Rightarrow> (str \<times> nat) option" where
  "unescape s =
     (case s of
        [] \<Rightarrow> None
      | e # r \<Rightarrow>
          if e = CHR ''u'' then
            (case r of
               a # b # c # d # r' \<Rightarrow>
                 (case hex4 a b c d of
                    None \<Rightarrow> None
                  | Some u1 \<Rightarrow>
                      if 0xD800 \<le> u1 \<and> u1 \<le> 0xDBFF then
                        (case low_surrogate_escape r' of
                           None \<Rightarrow> None
                         | Some None \<Rightarrow> Some (utf8_encode u1, 5)
                         | Some (Some u2) \<Rightarrow>
                             Some (utf8_encode (0x10000 + (u1 - 0xD800) * 1024 + (u2 - 0xDC00)), 11))
                      else Some (utf8_encode u1, 5))
             | _ \<Rightarrow> None)
          else (case simple_escape e of None \<Rightarrow> None | Some ch \<Rightarrow> Some ([ch], 1)))"

text \<open>
  \<^verbatim>\<open>scanstring\<close> in strict mode, from just after the opening quote: the string and the
  text after the closing quote. A control character or a bad escape is an error.
\<close>

fun scanstring :: "str \<Rightarrow> string \<Rightarrow> exn + (str \<times> string)" where
  "scanstring acc [] = Inl JSONDecodeError"
| "scanstring acc (c # cs) =
     (if c = CHR 0x22 then Inr (acc, cs)
      else if c = CHR 0x5C then
        (case unescape cs of
           None \<Rightarrow> Inl JSONDecodeError
         | Some (chunk, n) \<Rightarrow> scanstring (acc @ chunk) (drop n cs))
      else if byte c < 0x20 then Inl JSONDecodeError
      else scanstring (acc @ [c]) cs)"

subsection \<open>Scanning numbers and literals\<close>

text \<open>
  The number pattern of the decoder:
  \<^verbatim>\<open>(-?(?:0|[1-9][0-9]*))(\.[0-9]+)?([eE][-+]?[0-9]+)?\<close>.
  A match with neither fraction nor exponent is an \<^verbatim>\<open>int\<close>, any other a \<^verbatim>\<open>float\<close>.
\<close>

definition digit_val :: "char \<Rightarrow> nat" where
  "digit_val c = byte c - 0x30"

definition digits_val :: "string \<Rightarrow> nat" where
  "digits_val ds = foldl (\<lambda>n c. 10 * n + digit_val c) 0 ds"

definition scan_int_part :: "string \<Rightarrow> (string \<times> string) option" where
  "scan_int_part s =
     (case s of
        [] \<Rightarrow> None
      | c # cs \<Rightarrow>
          if c = CHR ''0'' then Some ([c], cs)
          else if is_digit c then Some (c # takeWhile is_digit cs, dropWhile is_digit cs)
          else None)"

definition scan_frac :: "string \<Rightarrow> string \<times> string" where
  "scan_frac s =
     (case s of
        c # d # ds \<Rightarrow>
          if c = CHR ''.'' \<and> is_digit d
          then (takeWhile is_digit (d # ds), dropWhile is_digit (d # ds))
          else ([], s)
      | _ \<Rightarrow> ([], s))"

definition scan_exp_digits :: "bool \<Rightarrow> string \<Rightarrow> string \<Rightarrow> int option \<times> string" where
  "scan_exp_digits neg s ds =
     (case ds of
        [] \<Rightarrow> (None, s)
      | d # _ \<Rightarrow>
          if is_digit d
          then (Some ((if neg then -1 else 1) * int (digits_val (takeWhile is_digit ds))),
                dropWhile is_digit ds)
          else (None, s))"

definition scan_exp :: "string \<Rightarrow> int option \<times> string" where
  "scan_exp s =
     (case s of
        [] \<Rightarrow> (None, s)
      | c # cs \<Rightarrow>
          if c = CHR ''e'' \<or> c = CHR ''E'' then
            (case cs of
               [] \<Rightarrow> (None, s)
             | g # ds \<Rightarrow>
                 if g = CHR ''-'' then scan_exp_digits True s ds
                 else if g = CHR ''+'' then scan_exp_digits False s ds
                 else scan_exp_digits False s cs)
          else (None, s))"

definition scan_number :: "string \<Rightarrow> (pyval \<times> string) option" where
  "scan_number s =
     (let (neg, s1) = (case s of
                         [] \<Rightarrow> (False, s)
                       | c # cs \<Rightarrow> if c = CHR ''-'' then (True, cs) else (False, s))
      in case scan_int_part s1 of
           None \<Rightarrow> None
         | Some (ds, r1) \<Rightarrow>
             (let (fs, r2) = scan_frac r1; (ex, r3) = scan_exp r2
              in if fs = [] \<and> ex = None
                 then Some (PInt (if neg then - int (digits_val ds) else int (digits_val ds)), r3)
                 else Some (PFloat (Finite neg (digits_val (ds @ fs))
                                      ((case ex of None \<Rightarrow> 0 | Some e \<Rightarrow> e) - int (length fs))),
                            r3)))"

text \<open>
  What \<^verbatim>\<open>scan_once\<close> tries when the next character opens neither a string, an object
  nor an array, in its order: the three literals, a number, the three float names.
\<close>

definition scan_atom :: "string \<Rightarrow> exn + (pyval \<times> string)" where
  "scan_atom s =
     (if prefix ''null'' s then Inr (PNone, drop 4 s)
      else if prefix ''true'' s then Inr (PBool True, drop 4 s)
      else if prefix ''false'' s then Inr (PBool False, drop 5 s)
      else (case scan_number s of
              Some r \<Rightarrow> Inr r
            | None \<Rightarrow>
                if prefix ''NaN'' s then Inr (PFloat NaN, drop 3 s)
                else if prefix ''Infinity'' s then Inr (PFloat (Infinity False), drop 8 s)
                else if prefix ''-Infinity'' s then Inr (PFloat (Infinity True), drop 9 s)
                else Inl JSONDecodeError))"

subsection \<open>The decoder\<close>

text \<open>
  \<open>parse_value\<close> is \<^verbatim>\<open>scan_once\<close>; \<open>parse_elems\<close> is the loop of \<^verbatim>\<open>JSONArray\<close>, at the
  start of an element; \<open>parse_members\<close> is the loop of \<^verbatim>\<open>JSONObject\<close>, just after the
  opening quote of a key. Each returns the value and the text that follows it. Every
  failure of the decoder is a \<^verbatim>\<open>JSONDecodeError\<close>.
\<close>

function parse_value :: "string \<Rightarrow> exn + (pyval \<times> string)"
  and parse_elems :: "pyval list \<Rightarrow> string \<Rightarrow> exn + (pyval \<times> string)"
  and parse_members :: "(str \<times> pyval) list \<Rightarrow> string \<Rightarrow> exn + (pyval \<times> string)"
where
  "parse_value [] = Inl JSONDecodeError"
| "parse_value (c # cs) =
     (if c = CHR 0x22 then
        (case scanstring [] cs of
           Inl e \<Rightarrow> Inl e
         | Inr (s, r) \<Rightarrow> Inr (PStr s, r))
      else if c = CHR ''{'' then
        (case skip_ws cs of
           [] \<Rightarrow> Inl JSONDecodeError
         | d # ds \<Rightarrow>
             if d = CHR ''}'' then Inr (PDict [], ds)
             else if d = CHR 0x22 then parse_members [] ds
             else Inl JSONDecodeError)
      else if c = CHR ''['' then
        (case skip_ws cs of
           [] \<Rightarrow> Inl JSONDecodeError
         | d # ds \<Rightarrow>
             if d = CHR '']'' then Inr (PList [], ds)
             else parse_elems [] (d # ds))
      else scan_atom (c # cs))"
| "parse_elems acc s =
     (case parse_value s of
        Inl e \<Rightarrow> Inl e
      | Inr (v, r) \<Rightarrow>
          (case skip_ws r of
             [] \<Rightarrow> Inl JSONDecodeError
           | d # ds \<Rightarrow>
               if d = CHR '']'' then Inr (PList (acc @ [v]), ds)
               else if d = CHR '','' then parse_elems (acc @ [v]) (skip_ws ds)
               else Inl JSONDecodeError))"
| "parse_members acc s =
     (case scanstring [] s of
        Inl e \<Rightarrow> Inl e
      | Inr (key, r) \<Rightarrow>
          (case skip_ws r of
             [] \<Rightarrow> Inl JSONDecodeError
           | d # ds \<Rightarrow>
               if d = CHR '':'' then
                 (case parse_value (skip_ws ds) of
                    Inl e \<Rightarrow> Inl e
                  | Inr (v, r') \<Rightarrow>
                      (case skip_ws r' of
                         [] \<Rightarrow> Inl JSONDecodeError
                       | d' # ds' \<Rightarrow>
                           if d' = CHR ''}'' then Inr (PDict (dict_of_pairs (acc @ [(key, v)])), ds')
                           else if d' = CHR '','' then
                             (case skip_ws ds' of
                                [] \<Rightarrow> Inl JSONDecodeError
                              | q # qs \<Rightarrow>
                                  if q = CHR 0x22 then parse_members (acc @ [(key, v)]) qs
                                  else Inl JSONDecodeError)
                           else Inl JSONDecodeError))
               else Inl JSONDecodeError))"
  by pat_completeness auto


text \<open>Every scanner returns a shorter text than it was given: the decoder terminates.\<close>

lemma skip_ws_length: "length (skip_ws s) \<le> length s"
  by (simp add: skip_ws_def length_dropWhile_le)

lemma skip_ws_Cons_length: "skip_ws s = d # ds \<Longrightarrow> length ds < length s"
  using skip_ws_length [of s] by simp

lemma skip_ws_Cons_length2: "skip_ws s = d # ds \<Longrightarrow> length (skip_ws ds) < length s"
  using skip_ws_length [of s] skip_ws_length [of ds] by simp

lemma scanstring_length: "scanstring acc cs = Inr (s, r) \<Longrightarrow> length r < length cs"
proof (induction acc cs rule: scanstring.induct)
  case (1 acc)
  then show ?case by simp
next
  case (2 acc c cs)
  then show ?case
    by (fastforce split: if_splits option.splits prod.splits)
qed

lemma scan_int_part_length: "scan_int_part s = Some (ds, r) \<Longrightarrow> length r < length s"
  by (auto simp: scan_int_part_def less_Suc_eq_le length_dropWhile_le split: list.splits if_splits)

lemma scan_frac_length: "scan_frac s = (fs, r) \<Longrightarrow> length r \<le> length s"
  by (auto simp: scan_frac_def le_SucI length_dropWhile_le split: list.splits if_splits)

lemma scan_exp_digits_length:
  "scan_exp_digits neg s ds = (ex, r) \<Longrightarrow> length ds \<le> length s \<Longrightarrow> length r \<le> length s"
  using length_dropWhile_le [of is_digit ds]
  by (auto simp: scan_exp_digits_def split: list.splits if_splits)

lemma scan_exp_length: "scan_exp s = (ex, r) \<Longrightarrow> length r \<le> length s"
  by (auto simp: scan_exp_def split: list.splits if_splits dest!: scan_exp_digits_length)

lemma scan_number_length: "scan_number s = Some (v, r) \<Longrightarrow> length r < length s"
  by (fastforce simp: scan_number_def Let_def
        split: list.splits if_splits option.splits prod.splits
        dest: scan_int_part_length scan_frac_length scan_exp_length)

lemma scan_atom_length: "scan_atom s = Inr (v, r) \<Longrightarrow> length r < length s"
  by (auto simp: scan_atom_def prefix_def split: if_splits option.splits dest: scan_number_length)

lemma parse_length_partial:
  "parse_value_parse_elems_parse_members_dom (Inl s) \<Longrightarrow>
     parse_value s = Inr (v, r) \<Longrightarrow> length r < length s"
  "parse_value_parse_elems_parse_members_dom (Inr (Inl (acc, s'))) \<Longrightarrow>
     parse_elems acc s' = Inr (v', r') \<Longrightarrow> length r' < length s'"
  "parse_value_parse_elems_parse_members_dom (Inr (Inr (acc', s''))) \<Longrightarrow>
     parse_members acc' s'' = Inr (v'', r'') \<Longrightarrow> length r'' < length s''"
proof (induct s and acc s' and acc' s'' arbitrary: v r and v' r' and v'' r''
       rule: parse_value_parse_elems_parse_members.pinduct)
  case 1
  then show ?case by (simp add: parse_value.psimps)
next
  case (2 c cs)
  from "2.prems" "2.hyps"(1) show ?case
    apply (simp add: parse_value.psimps split: if_splits sum.splits list.splits prod.splits)
    apply (insert "2.hyps"(2,3))
    apply (fastforce dest: skip_ws_Cons_length scanstring_length scan_atom_length)+
    done
next
  case (3 acc s)
  from "3.prems" "3.hyps"(1) show ?case
    apply (simp add: parse_elems.psimps split: if_splits sum.splits list.splits prod.splits)
    apply (insert "3.hyps"(2,3))
    apply (fastforce dest: skip_ws_Cons_length skip_ws_Cons_length2)+
    done
next
  case (4 acc s)
  from "4.prems" "4.hyps"(1) show ?case
    apply (simp add: parse_members.psimps split: if_splits sum.splits list.splits prod.splits)
    apply (insert "4.hyps"(2,3))
    apply (fastforce dest: skip_ws_Cons_length skip_ws_Cons_length2 scanstring_length)+
    done
qed


termination parse_value
proof (relation "measure (\<lambda>x. case x of
                            Inl s \<Rightarrow> 2 * length s
                          | Inr (Inl (acc, s)) \<Rightarrow> 2 * length s + 1
                          | Inr (Inr (acc, s)) \<Rightarrow> 2 * length s + 1)", goal_cases)
  case 1
  show ?case by simp
next
  case (2 c cs d ds)
  then show ?case by (auto dest: skip_ws_Cons_length)
next
  case (3 c cs d ds)
  then show ?case using skip_ws_length [of cs] by auto
next
  case (4 acc s)
  show ?case by simp
next
  case (5 acc s b v r d ds)
  then show ?case
    by (auto dest!: parse_length_partial(1) skip_ws_Cons_length2)
next
  case (6 acc s b key r d ds)
  then show ?case
    by (auto dest!: scanstring_length skip_ws_Cons_length2)
next
  case (7 acc s b key r d ds b' v r' d' ds' q qs)
  then have "length r < length s" "length ds < length r"
    "length r' < length (skip_ws ds)" "length ds' < length r'" "length qs < length ds'"
    by (auto dest: scanstring_length parse_length_partial(1) skip_ws_Cons_length)
  then show ?case using skip_ws_length [of ds] by simp
qed

declare parse_elems.simps [simp del] parse_members.simps [simp del]

text \<open>
  \<^verbatim>\<open>json.loads\<close> on a \<^verbatim>\<open>str\<close>: a leading byte-order mark is refused, white space may
  surround the one value, and nothing else may follow it. The interpreter's recursion limit
  and the limit some versions put on the length of a decimal numeral are not modelled; the
  exceptions they raise (\<^verbatim>\<open>RecursionError\<close>, \<^verbatim>\<open>ValueError\<close>) derive from \<^verbatim>\<open>Exception\<close>
  and are not \<^verbatim>\<open>JSONDecodeError\<close>.
\<close>

definition loads :: "str \<Rightarrow> exn + pyval" where
  "loads s =
     (if prefix [CHR 0xEF, CHR 0xBB, CHR 0xBF] s then Inl JSONDecodeError
      else case parse_value (skip_ws s) of
             Inl e \<Rightarrow> Inl e
           | Inr (v, r) \<Rightarrow> if skip_ws r = [] then Inr v else Inl JSONDecodeError)"

section \<open>The notification handler\<close>

definition SERVICE_UUID :: str where
  "SERVICE_UUID = ''6E400001-B5A3-F393-E0A9-E50E24DCCA9E''"

definition COMMAND_CHAR_UUID :: str where
  "COMMAND_CHAR_UUID = ''6E400002-B5A3-F393-E0A9-E50E24DCCA9E''"

definition STATE_CHAR_UUID :: str where
  "STATE_CHAR_UUID = ''6E400003-B5A3-F393-E0A9-E50E24DCCA9E''"

definition DEBUG_CHAR_UUID :: str where
  "DEBUG_CHAR_UUID = ''6E400004-B5A3-F393-E0A9-E50E24DCCA9E''"

definition INFO_CHAR_UUID :: str where
  "INFO_CHAR_UUID = ''6E400005-B5A3-F393-E0A9-E50E24DCCA9E''"

subsection \<open>Truth values, hashing and the console\<close>

text \<open>
  A float literal reads as zero when its digits are all zero or when its value is at most
  \<open>2 ^ -1075\<close>, half the least positive double (the conversion rounds to nearest, ties
  to even).
\<close>

fun float_is_zero :: "pyfloat \<Rightarrow> bool" where
  "float_is_zero (Finite neg m e) = (m = 0 \<or> (e < 0 \<and> m * 2 ^ 1075 \<le> 10 ^ nat (- e)))"
| "float_is_zero NaN = False"
| "float_is_zero (Infinity neg) = False"

text \<open>The truth value Python's \<^verbatim>\<open>if\<close> gives a value.\<close>

fun truthy :: "pyval \<Rightarrow> bool" where
  "truthy PNone = False"
| "truthy (PBool b) = b"
| "truthy (PInt i) = (i \<noteq> 0)"
| "truthy (PFloat f) = (\<not> float_is_zero f)"
| "truthy (PStr s) = (s \<noteq> [])"
| "truthy (PList xs) = (xs \<noteq> [])"
| "truthy (PDict d) = (d \<noteq> [])"

text \<open>\<^verbatim>\<open>d[k]\<close> on a dict.\<close>

definition dict_item :: "(str \<times> pyval) list \<Rightarrow> str \<Rightarrow> exn + pyval" where
  "dict_item d k = (case map_of d k of None \<Rightarrow> Inl KeyError | Some v \<Rightarrow> Inr v)"

text \<open>
  The symbols of the log levels, as the UTF-8 bytes of the source file: a cross mark, a
  warning sign, an information sign, a wrench and a memo.
\<close>

definition sym_cross :: str where
  "sym_cross = [CHR 0xE2, CHR 0x9D, CHR 0x8C]"

definition sym_warning :: str where
  "sym_warning = [CHR 0xE2, CHR 0x9A, CHR 0xA0, CHR 0xEF, CHR 0xB8, CHR 0x8F]"

definition sym_info :: str where
  "sym_info = [CHR 0xE2, CHR 0x84, CHR 0xB9, CHR 0xEF, CHR 0xB8, CHR 0x8F]"

definition sym_wrench :: str where
  "sym_wrench = [CHR 0xF0, CHR 0x9F, CHR 0x94, CHR 0xA7]"

definition sym_memo :: str where
  "sym_memo = [CHR 0xF0, CHR 0x9F, CHR 0x93, CHR 0x9D]"

definition level_symbols :: "(str \<times> str) list" where
  "level_symbols =
     [(''ERROR'', sym_cross),
      (''WARNING'', sym_warning),
      (''INFO'', sym_info),
      (''DEBUG'', sym_wrench),
      (''VERBOSE'', sym_memo)]"

text \<open>
  \<^verbatim>\<open>level_symbols.get(level, default)\<close>: the key is hashed first, and a list or a dict
  cannot be hashed. The keys are strings, so only a string can be found.
\<close>

fun level_symbols_get :: "pyval \<Rightarrow> str \<Rightarrow> exn + str" where
  "level_symbols_get (PList xs) dflt = Inl TypeError"
| "level_symbols_get (PDict d) dflt = Inl TypeError"
| "level_symbols_get (PStr s) dflt =
     Inr (case map_of level_symbols s of None \<Rightarrow> dflt | Some glyph \<Rightarrow> glyph)"
| "level_symbols_get v dflt = Inr dflt"

text \<open>\<^verbatim>\<open>data.hex()\<close>: two lower-case hexadecimal digits for each byte.\<close>

definition hex_digit :: "nat \<Rightarrow> char" where
  "hex_digit n = ''0123456789abcdef'' ! n"

definition hex :: "bytes \<Rightarrow> str" where
  "hex data = concat (map (\<lambda>b. [hex_digit (byte b div 16), hex_digit (byte b mod 16)]) data)"

text \<open>
  What the client prints, one constructor for each \<^verbatim>\<open>print\<close> of the source, holding the
  values the line is formatted from. The time stamp is a parameter of the handler. Writing
  to the console is taken to succeed.
\<close>

datatype line =
    StateHeader str
  | TrackLine pyval pyval
  | PlayingLine pyval
  | VolumeLine pyval
  | GenericLine pyval
  | DebugLine str str pyval pyval
  | DataLine pyval
  | RawLine str str
  | ErrorLine exn
  | CapabilitiesHeader
  | CapabilitiesLine pyval
  | InfoFailedLine exn
  | SendingLine str
  | SentLine
  | SendFailedLine exn
  | UnknownCommandLine
  | LoopErrorLine exn

subsection \<open>The handler\<close>

text \<open>
  The two branches of the \<^verbatim>\<open>try\<close> block, on the parsed message: the lines printed
  and the exception raised, if any. \<^verbatim>\<open>message.get\<close> exists on a dict only. On the state
  characteristic the header is printed before the first \<^verbatim>\<open>message.get\<close>.
\<close>

fun state_branch :: "str \<Rightarrow> pyval \<Rightarrow> line list \<times> exn option" where
  "state_branch timestamp (PDict message) =
     (if dict_get message ''type'' PNone = PStr ''stateUpdate'' then
        ([StateHeader timestamp,
          TrackLine (dict_get message ''track'' (PStr ''Unknown''))
                    (dict_get message ''artist'' (PStr ''Unknown'')),
          PlayingLine (dict_get message ''is_playing'' (PBool False)),
          VolumeLine (dict_get message ''volume_percent'' (PInt 0))], None)
      else ([StateHeader timestamp, GenericLine (PDict message)], None))"
| "state_branch timestamp message = ([StateHeader timestamp], Some AttributeError)"

fun debug_branch :: "str \<Rightarrow> pyval \<Rightarrow> line list \<times> exn option" where
  "debug_branch timestamp (PDict message) =
     (let level = dict_get message ''level'' (PStr ''INFO'');
          log_type = dict_get message ''type'' (PStr ''LOG'');
          msg = dict_get message ''message'' (PStr [])
      in case level_symbols_get level sym_memo of
           Inl e \<Rightarrow> ([], Some e)
         | Inr symbol \<Rightarrow>
             if truthy (dict_get message ''data'' PNone) then
               (case dict_item message ''data'' of
                  Inl e \<Rightarrow> ([DebugLine symbol timestamp log_type msg], Some e)
                | Inr d \<Rightarrow> ([DebugLine symbol timestamp log_type msg, DataLine d], None))
             else ([DebugLine symbol timestamp log_type msg], None))"
| "debug_branch timestamp message = ([], Some AttributeError)"

definition handler_try :: "str \<Rightarrow> str \<Rightarrow> bytes \<Rightarrow> line list \<times> exn option" where
  "handler_try char_uuid timestamp data =
     (case decode_utf8 data of
        Inl e \<Rightarrow> ([], Some e)
      | Inr text \<Rightarrow>
          (case loads text of
             Inl e \<Rightarrow> ([], Some e)
           | Inr message \<Rightarrow>
               if char_uuid = STATE_CHAR_UUID then state_branch timestamp message
               else if char_uuid = DEBUG_CHAR_UUID then debug_branch timestamp message
               else ([], None)))"

text \<open>
  Every class of \<open>exn\<close> derives from \<^verbatim>\<open>Exception\<close>; \<^verbatim>\<open>JSONDecodeError\<close> is the only
  one the first \<^verbatim>\<open>except\<close> clause catches.
\<close>

fun is_Exception :: "exn \<Rightarrow> bool" where
  "is_Exception UnicodeDecodeError = True"
| "is_Exception JSONDecodeError = True"
| "is_Exception AttributeError = True"
| "is_Exception TypeError = True"
| "is_Exception ValueError = True"
| "is_Exception IndexError = True"
| "is_Exception KeyError = True"
| "is_Exception TransportError = True"

text \<open>
  The handler that \<^verbatim>\<open>notification_handler(char_uuid)\<close> returns: the lines it prints and
  the exception that leaves it, if any.
\<close>

definition handler :: "str \<Rightarrow> str \<Rightarrow> bytes \<Rightarrow> line list \<times> exn option" where
  "handler char_uuid timestamp data =
     (case handler_try char_uuid timestamp data of
        (out, None) \<Rightarrow> (out, None)
      | (out, Some e) \<Rightarrow>
          if e = JSONDecodeError then (out @ [RawLine timestamp (hex data)], None)
          else if is_Exception e then (out @ [ErrorLine e], None)
          else (out, Some e))"

section \<open>Commands and the GATT transport\<close>

subsection \<open>\<^verbatim>\<open>json.dumps\<close> on a command\<close>

text \<open>
  The dictionaries the client sends hold strings and integers only.
  \<^verbatim>\<open>json.dumps\<close> writes them with the separators \<^verbatim>\<open>", "\<close> and \<^verbatim>\<open>": "\<close>, a string
  between quotes with everything outside the printable ASCII range escaped, an integer in
  decimal. The limit some interpreter versions put on the length of a decimal numeral is
  not modelled: integers are unbounded.
\<close>

datatype cmd_value = CmdStr str | CmdInt int

type_synonym command = "(str \<times> cmd_value) list"

definition digit_char :: "nat \<Rightarrow> char" where
  "digit_char d = ''0123456789'' ! d"

fun str_nat :: "nat \<Rightarrow> str" where
  "str_nat n = (if n < 10 then [digit_char n] else str_nat (n div 10) @ [digit_char (n mod 10)])"

declare str_nat.simps [simp del]

definition str_int :: "int \<Rightarrow> str" where
  "str_int i = (if i < 0 then CHR ''-'' # str_nat (nat (- i)) else str_nat (nat i))"

text \<open>The code points of a \<^verbatim>\<open>str\<close>, read back from its UTF-8 form.\<close>

fun code_points :: "str \<Rightarrow> nat list" where
  "code_points [] = []"
| "code_points (b0 # bs) =
     (if byte b0 < 0x80 then byte b0 # code_points bs
      else if byte b0 < 0xE0 then
        (case bs of
           b1 # r \<Rightarrow> ((byte b0 - 0xC0) * 64 + (byte b1 - 0x80)) # code_points r
         | _ \<Rightarrow> [])
      else if byte b0 < 0xF0 then
        (case bs of
           b1 # b2 # r \<Rightarrow>
             (((byte b0 - 0xE0) * 64 + (byte b1 - 0x80)) * 64 + (byte b2 - 0x80)) # code_points r
         | _ \<Rightarrow> [])
      else
        (case bs of
           b1 # b2 # b3 # r \<Rightarrow>
             ((((byte b0 - 0xF0) * 64 + (byte b1 - 0x80)) * 64 + (byte b2 - 0x80)) * 64
              + (byte b3 - 0x80)) # code_points r
         | _ \<Rightarrow> []))"

definition u_escape :: "nat \<Rightarrow> str" where
  "u_escape n =
     [CHR 0x5C, CHR ''u'', hex_digit (n div 4096), hex_digit (n div 256 mod 16),
      hex_digit (n div 16 mod 16), hex_digit (n mod 16)]"

definition escape_ascii :: "nat \<Rightarrow> str" where
  "escape_ascii n =
     (if n = 0x22 then [CHR 0x5C, CHR 0x22]
      else if n = 0x5C then [CHR 0x5C, CHR 0x5C]
      else if n = 0x0A then [CHR 0x5C, CHR ''n'']
      else if n = 0x0D then [CHR 0x5C, CHR ''r'']
      else if n = 0x09 then [CHR 0x5C, CHR ''t'']
      else if n = 0x08 then [CHR 0x5C, CHR ''b'']
      else if n = 0x0C then [CHR 0x5C, CHR ''f'']
      else if 0x20 \<le> n \<and> n \<le> 0x7E then [char_of n]
      else if n < 0x10000 then u_escape n
      else u_escape (0xD800 + (n - 0x10000) div 1024) @ u_escape (0xDC00 + (n - 0x10000) mod 1024))"

definition encode_basestring_ascii :: "str \<Rightarrow> str" where
  "encode_basestring_ascii s = [CHR 0x22] @ concat (map escape_ascii (code_points s)) @ [CHR 0x22]"

fun join :: "str \<Rightarrow> str list \<Rightarrow> str" where
  "join sep [] = []"
| "join sep [x] = x"
| "join sep (x # y # ys) = x @ sep @ join sep (y # ys)"

fun dumps_value :: "cmd_value \<Rightarrow> str" where
  "dumps_value (CmdStr s) = encode_basestring_ascii s"
| "dumps_value (CmdInt i) = str_int i"

definition dumps :: "command \<Rightarrow> str" where
  "dumps command =
     ''{'' @ join '', '' (map (\<lambda>(k, v). encode_basestring_ascii k @ '': '' @ dumps_value v) command)
     @ ''}''"



subsection \<open>The transport\<close>

text \<open>
  Modelled from the spec: the GATT transport (the \<^verbatim>\<open>BleakClient\<close> behind \<^verbatim>\<open>self.client\<close>)
  is an external collaborator. A read or a write fails when the link is down or the
  characteristic does not support it; the command characteristic is write-only and the info
  characteristic read-only. The state keeps the value the peer serves on the info
  characteristic and the log of the writes handed to the transport.
\<close>

record transport =
  is_connected :: bool
  info_value :: bytes
  written :: "(str \<times> bytes) list"

definition read_gatt_char :: "transport \<Rightarrow> str \<Rightarrow> exn + bytes" where
  "read_gatt_char t uuid =
     (if is_connected t \<and> uuid = INFO_CHAR_UUID then Inr (info_value t) else Inl TransportError)"

definition write_gatt_char :: "transport \<Rightarrow> str \<Rightarrow> bytes \<Rightarrow> exn + transport" where
  "write_gatt_char t uuid data =
     (if is_connected t \<and> uuid = COMMAND_CHAR_UUID
      then Inr (t\<lparr>written := written t @ [(uuid, data)]\<rparr>)
      else Inl TransportError)"

subsection \<open>\<^verbatim>\<open>read_device_info\<close> and \<^verbatim>\<open>send_command\<close>\<close>

text \<open>
  \<^verbatim>\<open>except Exception as e: print(...)\<close>: the lines printed so far, then the report of the
  exception; nothing leaves the function.
\<close>

definition except_Exception :: "(exn \<Rightarrow> line) \<Rightarrow> line list \<times> exn option \<Rightarrow> line list \<times> exn option" where
  "except_Exception report r =
     (case r of
        (out, None) \<Rightarrow> (out, None)
      | (out, Some e) \<Rightarrow> if is_Exception e then (out @ [report e], None) else (out, Some e))"

definition read_device_info_try :: "transport \<Rightarrow> line list \<times> exn option" where
  "read_device_info_try t =
     (case read_gatt_char t INFO_CHAR_UUID of
        Inl e \<Rightarrow> ([], Some e)
      | Inr data \<Rightarrow>
          (case decode_utf8 data of
             Inl e \<Rightarrow> ([], Some e)
           | Inr text \<Rightarrow>
               (case loads text of
                  Inl e \<Rightarrow> ([], Some e)
                | Inr info \<Rightarrow> ([CapabilitiesHeader, CapabilitiesLine info], None))))"

definition read_device_info :: "transport \<Rightarrow> line list \<times> exn option" where
  "read_device_info t = except_Exception InfoFailedLine (read_device_info_try t)"

text \<open>
  \<^verbatim>\<open>json_str.encode('utf-8')\<close> cannot fail and changes nothing: \<^verbatim>\<open>json.dumps\<close> returns
  ASCII text.
\<close>

definition send_command_try :: "transport \<Rightarrow> command \<Rightarrow> transport \<times> line list \<times> exn option" where
  "send_command_try t command =
     (let json_str = dumps command
      in case write_gatt_char t COMMAND_CHAR_UUID json_str of
           Inl e \<Rightarrow> (t, [SendingLine json_str], Some e)
         | Inr t' \<Rightarrow> (t', [SendingLine json_str, SentLine], None))"

definition send_command :: "transport \<Rightarrow> command \<Rightarrow> transport \<times> line list \<times> exn option" where
  "send_command t command =
     (case send_command_try t command of
        (t', r) \<Rightarrow> (t', except_Exception SendFailedLine r))"

section \<open>The interactive loop\<close>

text \<open>
  The operator's line is taken to be ASCII text. \<^verbatim>\<open>str.strip\<close> and \<^verbatim>\<open>str.split\<close> use
  Python's white space, \<^verbatim>\<open>str.lower\<close> maps the capital letters, and \<^verbatim>\<open>int\<close> reads an
  optional sign and decimal digits, which single underscores may separate.
\<close>

definition is_space :: "char \<Rightarrow> bool" where
  "is_space c = (in_range 0x09 0x0D c \<or> in_range 0x1C 0x20 c)"

definition strip :: "str \<Rightarrow> str" where
  "strip s = rev (dropWhile is_space (rev (dropWhile is_space s)))"

definition lower_char :: "char \<Rightarrow> char" where
  "lower_char c = (if in_range 0x41 0x5A c then char_of (byte c + 32) else c)"

definition lower :: "str \<Rightarrow> str" where
  "lower s = map lower_char s"

function split :: "str \<Rightarrow> str list" where
  "split s =
     (case dropWhile is_space s of
        [] \<Rightarrow> []
      | c # cs \<Rightarrow> (c # takeWhile (\<lambda>x. \<not> is_space x) cs) # split (dropWhile (\<lambda>x. \<not> is_space x) cs))"
  by pat_completeness auto

termination
proof (relation "measure length", goal_cases)
  case 1
  show ?case by simp
next
  case (2 s c cs)
  have "length (dropWhile (\<lambda>x. \<not> is_space x) cs) \<le> length cs"
    by (rule length_dropWhile_le)
  moreover have "length (dropWhile is_space s) \<le> length s"
    by (rule length_dropWhile_le)
  ultimately show ?case using 2 by simp
qed

declare split.simps [simp del]

text \<open>\<^verbatim>\<open>xs[i]\<close> for an index that is not negative.\<close>

definition index :: "'a list \<Rightarrow> nat \<Rightarrow> exn + 'a" where
  "index xs i = (if i < length xs then Inr (xs ! i) else Inl IndexError)"

fun int_digits :: "string \<Rightarrow> string option" where
  "int_digits [] = None"
| "int_digits [c] = (if is_digit c then Some [c] else None)"
| "int_digits (c # d # r) =
     (if \<not> is_digit c then None
      else if d = CHR ''_'' then map_option (Cons c) (int_digits r)
      else map_option (Cons c) (int_digits (d # r)))"

definition py_int :: "str \<Rightarrow> exn + int" where
  "py_int s =
     (let body = strip s;
          (neg, ds) = (case body of
                         [] \<Rightarrow> (False, body)
                       | c # cs \<Rightarrow>
                           if c = CHR ''-'' then (True, cs)
                           else if c = CHR ''+'' then (False, cs)
                           else (False, body))
      in case int_digits ds of
           None \<Rightarrow> Inl ValueError
         | Some digits \<Rightarrow>
             Inr (if neg then - int (digits_val digits) else int (digits_val digits)))"

text \<open>
  One turn of the \<^verbatim>\<open>while True\<close> loop of \<^verbatim>\<open>interactive_mode\<close> on the line \<^verbatim>\<open>input\<close>
  returned: the transport afterwards, the lines printed, and either the exception raised
  inside the \<^verbatim>\<open>try\<close> block or whether the loop goes on. The pause after each command
  (\<^verbatim>\<open>asyncio.sleep\<close>) and the interruption from the keyboard are left out.
\<close>

datatype flow = Continue | Break

definition after_send :: "transport \<times> line list \<times> exn option \<Rightarrow> transport \<times> line list \<times> (exn + flow)" where
  "after_send r =
     (case r of
        (t, out, None) \<Rightarrow> (t, out, Inr Continue)
      | (t, out, Some e) \<Rightarrow> (t, out, Inl e))"

definition interactive_try :: "transport \<Rightarrow> str \<Rightarrow> transport \<times> line list \<times> (exn + flow)" where
  "interactive_try t raw =
     (let cmd = lower (strip raw)
      in if cmd = ''quit'' then (t, [], Inr Break)
         else if cmd = ''play'' then after_send (send_command t [(''command'', CmdStr ''play'')])
         else if cmd = ''pause'' then after_send (send_command t [(''command'', CmdStr ''pause'')])
         else if cmd = ''next'' then after_send (send_command t [(''command'', CmdStr ''next'')])
         else if cmd = ''prev'' then
           after_send (send_command t [(''command'', CmdStr ''previous'')])
         else if prefix ''seek '' cmd then
           (case index (split cmd) 1 of
              Inl e \<Rightarrow> (t, [], Inl e)
            | Inr tok \<Rightarrow>
                (case py_int tok of
                   Inl e \<Rightarrow> (t, [], Inl e)
                 | Inr ms \<Rightarrow>
                     after_send (send_command t
                       [(''command'', CmdStr ''seek_to''), (''value_ms'', CmdInt ms)])))
         else if prefix ''vol '' cmd then
           (case index (split cmd) 1 of
              Inl e \<Rightarrow> (t, [], Inl e)
            | Inr tok \<Rightarrow>
                (case py_int tok of
                   Inl e \<Rightarrow> (t, [], Inl e)
                 | Inr percent \<Rightarrow>
                     after_send (send_command t
                       [(''command'', CmdStr ''set_volume''), (''value_percent'', CmdInt percent)])))
         else if cmd = ''info'' then after_send (t, read_device_info t)
         else (t, [UnknownCommandLine], Inr Continue))"

definition interactive_step :: "transport \<Rightarrow> str \<Rightarrow> transport \<times> line list \<times> (exn + flow)" where
  "interactive_step t raw =
     (case interactive_try t raw of
        (t', out, Inr f) \<Rightarrow> (t', out, Inr f)
      | (t', out, Inl e) \<Rightarrow>
          if is_Exception e then (t', out @ [LoopErrorLine e], Inr Continue)
          else (t', out, Inl e))"

section \<open>Properties of the notification handler\<close>

lemma handler_try_parsed:
  assumes "decode_utf8 data = Inr text" and "loads text = Inr message"
  shows "handler_try char_uuid timestamp data =
           (if char_uuid = STATE_CHAR_UUID then state_branch timestamp message
            else if char_uuid = DEBUG_CHAR_UUID then debug_branch timestamp message
            else ([], None))"
  using assms by (simp add: handler_try_def)

lemma uuids_distinct: "DEBUG_CHAR_UUID \<noteq> STATE_CHAR_UUID"
  by (simp add: DEBUG_CHAR_UUID_def STATE_CHAR_UUID_def)

lemma handler_state_parsed:
  assumes "decode_utf8 data = Inr text" and "loads text = Inr message"
  shows "handler STATE_CHAR_UUID timestamp data =
           except_Exception ErrorLine (state_branch timestamp message)"
proof -
  have "snd (state_branch timestamp message) \<noteq> Some JSONDecodeError"
    by (cases message) simp_all
  then show ?thesis
    using assms
    by (auto simp: handler_def handler_try_parsed except_Exception_def split: prod.splits option.splits)
qed

lemma debug_branch_not_json_error: "snd (debug_branch timestamp message) \<noteq> Some JSONDecodeError"
proof (cases message)
  case (PDict m)
  show ?thesis
  proof (cases "dict_get m ''level'' (PStr ''INFO'')")
    case (PStr s)
    then show ?thesis using PDict
      by (auto simp: Let_def dict_item_def dict_get_def split: sum.splits option.splits)
  qed (use PDict in \<open>auto simp: Let_def dict_item_def dict_get_def split: sum.splits option.splits\<close>)
qed simp_all

lemma handler_debug_parsed:
  assumes "decode_utf8 data = Inr text" and "loads text = Inr message"
  shows "handler DEBUG_CHAR_UUID timestamp data =
           except_Exception ErrorLine (debug_branch timestamp message)"
  using assms debug_branch_not_json_error [of timestamp message] uuids_distinct
  by (auto simp: handler_def handler_try_parsed except_Exception_def split: prod.splits option.splits)

lemma is_Exception_all: "is_Exception e"
  by (cases e) simp_all




text \<open>The decoder raises nothing but \<^verbatim>\<open>JSONDecodeError\<close>, the codec nothing but \<^verbatim>\<open>UnicodeDecodeError\<close>.\<close>

lemma scanstring_error: "scanstring acc s = Inl e \<Longrightarrow> e = JSONDecodeError"
  by (induction acc s rule: scanstring.induct) (auto split: if_splits option.splits prod.splits)

lemma scan_atom_error: "scan_atom s = Inl e \<Longrightarrow> e = JSONDecodeError"
  by (auto simp: scan_atom_def split: if_splits option.splits)

lemma parse_error:
  "parse_value s = Inl e \<Longrightarrow> e = JSONDecodeError"
  "parse_elems acc s' = Inl e' \<Longrightarrow> e' = JSONDecodeError"
  "parse_members acc' s'' = Inl e'' \<Longrightarrow> e'' = JSONDecodeError"
proof (induct s and acc s' and acc' s'' arbitrary: e and e' and e''
       rule: parse_value_parse_elems_parse_members.induct)
  case 1
  then show ?case by simp
next
  case (2 c cs)
  from "2.prems" show ?case
    apply (simp split: if_splits sum.splits list.splits prod.splits)
    apply (insert "2.hyps")
    apply (fastforce dest: scanstring_error scan_atom_error)+
    done
next
  case (3 acc s)
  from "3.prems" show ?case
    apply (subst (asm) parse_elems.simps)
    apply (simp split: if_splits sum.splits list.splits prod.splits)
    apply (insert "3.hyps")
    apply fastforce+
    done
next
  case (4 acc s)
  from "4.prems" show ?case
    apply (subst (asm) parse_members.simps)
    apply (simp split: if_splits sum.splits list.splits prod.splits)
    apply (insert "4.hyps")
    apply (fastforce dest: scanstring_error)+
    done
qed

lemma loads_error: "loads s = Inl e \<Longrightarrow> e = JSONDecodeError"
  by (auto simp: loads_def split: if_splits sum.splits prod.splits dest: parse_error(1))

lemma decode_utf8_error: "decode_utf8 data = Inl e \<Longrightarrow> e = UnicodeDecodeError"
  by (auto simp: decode_utf8_def split: if_splits)

text \<open>
  The two ways a payload can be malformed take different \<^verbatim>\<open>except\<close> clauses: text that is
  not JSON is shown as a hexadecimal dump of the payload, bytes that are not UTF-8 as a
  report of the exception.
\<close>

lemma handler_not_utf8:
  "decode_utf8 data = Inl e \<Longrightarrow>
     handler char_uuid timestamp data = ([ErrorLine UnicodeDecodeError], None)"
  by (frule decode_utf8_error) (simp add: handler_def handler_try_def)

lemma handler_not_json:
  "decode_utf8 data = Inr text \<Longrightarrow> loads text = Inl e \<Longrightarrow>
     handler char_uuid timestamp data = ([RawLine timestamp (hex data)], None)"
  by (frule loads_error) (simp add: handler_def handler_try_def)

text \<open>
  Claim C1. The bytes \<^verbatim>\<open>DE AD BE EF\<close> on the debug characteristic: \<^verbatim>\<open>data.decode('utf-8')\<close>
  raises \<^verbatim>\<open>UnicodeDecodeError\<close>, which is not a \<^verbatim>\<open>JSONDecodeError\<close>, so the handler prints
  the report of the exception and not the raw dump of the payload.
\<close>

theorem non_utf8_notification_is_error_report:
  "handler DEBUG_CHAR_UUID timestamp [CHR 0xDE, CHR 0xAD, CHR 0xBE, CHR 0xEF]
     = ([ErrorLine UnicodeDecodeError], None)"
proof -
  have "decode_utf8 [CHR 0xDE, CHR 0xAD, CHR 0xBE, CHR 0xEF] = Inl UnicodeDecodeError"
    by code_simp
  then show ?thesis by (rule handler_not_utf8)
qed

subsection \<open>Debug events\<close>


declare debug_branch.simps(1) [simp del]









subsection \<open>Totality\<close>

lemma state_branch_not_dict:
  "(\<forall>m. v \<noteq> PDict m) \<Longrightarrow> state_branch timestamp v = ([StateHeader timestamp], Some AttributeError)"
  by (cases v) simp_all

lemma debug_branch_not_dict:
  "(\<forall>m. v \<noteq> PDict m) \<Longrightarrow> debug_branch timestamp v = ([], Some AttributeError)"
  by (cases v) simp_all

text \<open>
  Claim C10. The handler returns normally for every characteristic and every payload: no
  exception leaves it. When the payload is valid UTF-8 and valid JSON but not an object,
  \<^verbatim>\<open>message.get\<close> raises \<^verbatim>\<open>AttributeError\<close>: on the state characteristic the header and
  then the error report are printed, on the debug characteristic the error report alone;
  neither the fields of a state update, nor a log line, nor the generic dump, nor the raw
  dump.
\<close>

theorem handler_total:
  "snd (handler char_uuid timestamp data) = None
   \<and> (decode_utf8 data = Inr text \<and> loads text = Inr v \<and> (\<forall>m. v \<noteq> PDict m) \<longrightarrow>
        handler STATE_CHAR_UUID timestamp data
          = ([StateHeader timestamp, ErrorLine AttributeError], None)
        \<and> handler DEBUG_CHAR_UUID timestamp data = ([ErrorLine AttributeError], None))"
proof (intro conjI impI)
  show "snd (handler char_uuid timestamp data) = None"
    by (simp add: handler_def is_Exception_all split: prod.splits option.splits)
next
  assume a: "decode_utf8 data = Inr text \<and> loads text = Inr v \<and> (\<forall>m. v \<noteq> PDict m)"
  then show "handler STATE_CHAR_UUID timestamp data
          = ([StateHeader timestamp, ErrorLine AttributeError], None)"
    by (simp add: handler_state_parsed [of data "text" v] state_branch_not_dict except_Exception_def)
  from a show "handler DEBUG_CHAR_UUID timestamp data = ([ErrorLine AttributeError], None)"
    by (simp add: handler_debug_parsed [of data "text" v] debug_branch_not_dict except_Exception_def)
qed


text \<open>An array, a number and a string.\<close>

theorem handler_total_witness:
  \<open>snd (handler STATE_CHAR_UUID ''12:00:00.000'' ''[1, 2]'') = None
   \<and> handler STATE_CHAR_UUID ''12:00:00.000'' ''[1, 2]''
       = ([StateHeader ''12:00:00.000'', ErrorLine AttributeError], None)
   \<and> handler DEBUG_CHAR_UUID ''12:00:00.000'' ''[1, 2]'' = ([ErrorLine AttributeError], None)
   \<and> handler DEBUG_CHAR_UUID ''12:00:00.000'' ''42'' = ([ErrorLine AttributeError], None)
   \<and> handler STATE_CHAR_UUID ''12:00:00.000'' ''"text"''
       = ([StateHeader ''12:00:00.000'', ErrorLine AttributeError], None)\<close>
proof -
  have a1: "decode_utf8 ''[1, 2]'' = Inr ''[1, 2]''" by code_simp
  have a2: "loads ''[1, 2]'' = Inr (PList [PInt 1, PInt 2])" by code_simp
  have b1: "decode_utf8 ''42'' = Inr ''42''" by code_simp
  have b2: "loads ''42'' = Inr (PInt 42)" by code_simp
  let ?c = \<open>''"text"''\<close>
  have c1: "decode_utf8 ?c = Inr ?c" by code_simp
  have c2: "loads ?c = Inr (PStr ''text'')" by code_simp
  from handler_total [of STATE_CHAR_UUID "''12:00:00.000''" "''[1, 2]''" "''[1, 2]''"
      "PList [PInt 1, PInt 2]"] a1 a2
    handler_total [of DEBUG_CHAR_UUID "''12:00:00.000''" "''42''" "''42''" "PInt 42"] b1 b2
    handler_total [of STATE_CHAR_UUID "''12:00:00.000''" "?c" "?c" "PStr ''text''"] c1 c2
  show ?thesis by simp
qed

section \<open>Properties of \<^verbatim>\<open>read_device_info\<close>\<close>

text \<open>A connected peer whose info characteristic holds text that is not JSON.\<close>

definition bad_info_transport :: transport where
  "bad_info_transport = \<lparr>is_connected = True, info_value = ''not json'', written = []\<rparr>"

text \<open>
  Claim C7, as stated, fails. \<^verbatim>\<open>read_device_info\<close> wraps the read and the decoding in
  \<^verbatim>\<open>try ... except Exception\<close>: the decoding error is printed and the function returns
  normally, so its caller receives no error.
\<close>

theorem decode_info_error_not_surfaced_counterexample:
  "read_device_info bad_info_transport = ([InfoFailedLine JSONDecodeError], None)"
  by code_simp

text \<open>
  Claim C7, amended. For every payload read from the info characteristic that is not valid
  UTF-8 or not valid JSON, \<^verbatim>\<open>read_device_info\<close> prints one line reporting the decoding
  error, prints no capabilities, and returns normally.
\<close>

theorem read_device_info_reports_and_returns:
  assumes "read_gatt_char t INFO_CHAR_UUID = Inr payload"
    and "decode_utf8 payload = Inl e \<or> (\<exists>text. decode_utf8 payload = Inr text \<and> loads text = Inl e)"
  shows "read_device_info t = ([InfoFailedLine e], None)"
  using assms
  by (auto simp: read_device_info_def read_device_info_try_def except_Exception_def is_Exception_all)

text \<open>The peer above.\<close>

theorem read_device_info_reports_and_returns_witness:
  "read_gatt_char bad_info_transport INFO_CHAR_UUID = Inr ''not json''
   \<and> decode_utf8 ''not json'' = Inr ''not json''
   \<and> loads ''not json'' = Inl JSONDecodeError
   \<and> read_device_info bad_info_transport = ([InfoFailedLine JSONDecodeError], None)"
proof -
  have r: "read_gatt_char bad_info_transport INFO_CHAR_UUID = Inr ''not json''"
    by (simp add: read_gatt_char_def bad_info_transport_def)
  have d: "decode_utf8 ''not json'' = Inr ''not json''" by code_simp
  have l: "loads ''not json'' = Inl JSONDecodeError" by code_simp
  from d l have "decode_utf8 ''not json'' = Inl JSONDecodeError
      \<or> (\<exists>text. decode_utf8 ''not json'' = Inr text \<and> loads text = Inl JSONDecodeError)"
    by blast
  from read_device_info_reports_and_returns [OF r this] r d l show ?thesis by simp
qed

section \<open>Decimal numerals\<close>

text \<open>
  \<open>str_int\<close> writes an integer the way the decoder's number pattern and \<^verbatim>\<open>int\<close> read
  it: digits only after an optional minus sign, no leading zero, and the value of the
  digits is the integer.
\<close>

lemma lt10_cases:
  "d < 10 \<Longrightarrow> d = 0 \<or> d = 1 \<or> d = 2 \<or> d = 3 \<or> d = 4 \<or> d = 5 \<or> d = 6 \<or> d = 7 \<or> d = 8 \<or> d = (9::nat)"
  by arith

lemma byte_digit_char: "d < 10 \<Longrightarrow> byte (digit_char d) = 48 + d"
  by (drule lt10_cases) (auto simp: digit_char_def byte_def)

lemma is_digit_byte: "is_digit c = (48 \<le> byte c \<and> byte c \<le> 57)"
  by (simp add: is_digit_def in_range_def)

lemma is_digit_digit_char: "d < 10 \<Longrightarrow> is_digit (digit_char d)"
  by (simp add: is_digit_byte byte_digit_char)



lemma str_nat_digits: "c \<in> set (str_nat n) \<Longrightarrow> is_digit c"
proof (induction n arbitrary: c rule: str_nat.induct)
  case (1 n)
  show ?case
  proof (cases "n < 10")
    case True
    with "1.prems" show ?thesis by (simp add: str_nat.simps [of n] is_digit_digit_char)
  next
    case False
    with "1.prems" "1.IH" show ?thesis
      by (auto simp: str_nat.simps [of n] is_digit_digit_char)
  qed
qed








text \<open>
  The decoder reads a numeral that \<open>str_int\<close> wrote, followed by a character that cannot
  continue a number, as that integer.
\<close>

lemma takeWhile_digits_str_nat:
  "\<not> is_digit c \<Longrightarrow> takeWhile is_digit (str_nat n @ c # r) = str_nat n"
  by (simp add: takeWhile_append2 str_nat_digits)

lemma dropWhile_digits_str_nat:
  "\<not> is_digit c \<Longrightarrow> dropWhile is_digit (str_nat n @ c # r) = c # r"
  by (simp add: dropWhile_append2 str_nat_digits)











section \<open>Encoding and decoding the commands\<close>








section \<open>Reading the operator's line\<close>


















text \<open>\<^verbatim>\<open>send_command\<close> on a link that is up, and on one that is down.\<close>

lemma send_command_connected:
  "is_connected t \<Longrightarrow>
     send_command t c =
       (t\<lparr>written := written t @ [(COMMAND_CHAR_UUID, dumps c)]\<rparr>,
        [SendingLine (dumps c), SentLine], None)"
  by (simp add: send_command_def send_command_try_def write_gatt_char_def except_Exception_def Let_def)

lemma send_command_disconnected:
  "\<not> is_connected t \<Longrightarrow>
     send_command t c = (t, [SendingLine (dumps c), SendFailedLine TransportError], None)"
  by (simp add: send_command_def send_command_try_def write_gatt_char_def except_Exception_def Let_def)



section \<open>The command structure of the specification\<close>

text \<open>
  The data model of the specification, in its words: a command has a \<^verbatim>\<open>command\<close> field,
  one of \<^verbatim>\<open>play\<close>, \<^verbatim>\<open>pause\<close>, \<^verbatim>\<open>next\<close>, \<^verbatim>\<open>previous\<close>, \<^verbatim>\<open>seek_to\<close>, \<^verbatim>\<open>set_volume\<close>;
  \<^verbatim>\<open>value_ms\<close> is present exactly when the command is \<^verbatim>\<open>seek_to\<close>, \<^verbatim>\<open>value_percent\<close>
  exactly when it is \<^verbatim>\<open>set_volume\<close>, and there are no other fields
  (\<open>spec_command_fields\<close>). A valid command has moreover a \<^verbatim>\<open>value_ms\<close> that is not
  negative and a \<^verbatim>\<open>value_percent\<close> between 0 and 100 (\<open>spec_valid_command\<close>).
\<close>

fun spec_command_fields :: "command \<Rightarrow> bool" where
  "spec_command_fields [(k, CmdStr tag)] =
     (k = ''command'' \<and> tag \<in> {''play'', ''pause'', ''next'', ''previous''})"
| "spec_command_fields [(k, CmdStr tag), (k', CmdInt v)] =
     (k = ''command'' \<and>
      (tag = ''seek_to'' \<and> k' = ''value_ms'' \<or> tag = ''set_volume'' \<and> k' = ''value_percent''))"
| "spec_command_fields c = False"



text \<open>A session whose link is up and that has written nothing yet.\<close>

definition idle_transport :: transport where
  "idle_transport = \<lparr>is_connected = True, info_value = [], written = []\<rparr>"











section \<open>Properties of the command dispatcher\<close>







text \<open>
  One turn of the loop has written nothing, or one command whose fields are those of the
  data model.
\<close>

definition wrote_at_most_one_command :: "transport \<Rightarrow> transport \<Rightarrow> bool" where
  "wrote_at_most_one_command t t' =
     (written t' = written t
      \<or> (\<exists>c. spec_command_fields c \<and> written t' = written t @ [(COMMAND_CHAR_UUID, dumps c)]))"

lemma fst_after_send: "fst (after_send r) = fst r"
  by (cases r) (simp add: after_send_def split: option.splits)

lemma send_command_wrote:
  "spec_command_fields c \<Longrightarrow> wrote_at_most_one_command t (fst (send_command t c))"
  by (cases "is_connected t")
     (auto simp: wrote_at_most_one_command_def send_command_connected send_command_disconnected)

lemma wrote_nothing: "wrote_at_most_one_command t t"
  by (simp add: wrote_at_most_one_command_def)

lemma interactive_step_fst: "fst (interactive_step t raw) = fst (interactive_try t raw)"
  by (simp add: interactive_step_def split: prod.splits sum.splits)

lemma interactive_try_wrote: "wrote_at_most_one_command t (fst (interactive_try t raw))"
  by (simp add: interactive_try_def Let_def fst_after_send send_command_wrote wrote_nothing
        split: sum.splits)

text \<open>
  Claim C8. Whatever line the operator types, one turn of the loop hands the transport
  either nothing or exactly one write, on the command characteristic, of the encoding of
  a command with exactly the fields of its tag: \<^verbatim>\<open>play\<close>, \<^verbatim>\<open>pause\<close>, \<^verbatim>\<open>next\<close> and
  \<^verbatim>\<open>previous\<close> with the \<^verbatim>\<open>command\<close> field alone, \<^verbatim>\<open>seek_to\<close> with \<^verbatim>\<open>command\<close> and
  \<^verbatim>\<open>value_ms\<close>, \<^verbatim>\<open>set_volume\<close> with \<^verbatim>\<open>command\<close> and \<^verbatim>\<open>value_percent\<close>.
\<close>

theorem dispatcher_sends_exact_fields:
  "written (fst (interactive_step t raw)) = written t
   \<or> (\<exists>c. spec_command_fields c
          \<and> written (fst (interactive_step t raw)) = written t @ [(COMMAND_CHAR_UUID, dumps c)])"
  using interactive_try_wrote [of t raw]
  by (simp add: interactive_step_fst wrote_at_most_one_command_def)

text \<open>The line \<^verbatim>\<open>prev\<close>: something is written, so it is the encoding of such a command.\<close>

theorem dispatcher_sends_exact_fields_witness:
  \<open>written (fst (interactive_step idle_transport ''prev''))
     = [(COMMAND_CHAR_UUID, ''{"command": "previous"}'')]
   \<and> (\<exists>c. spec_command_fields c
          \<and> written (fst (interactive_step idle_transport ''prev''))
              = [(COMMAND_CHAR_UUID, dumps c)])\<close>
proof -
  have e: \<open>written (fst (interactive_step idle_transport ''prev''))
             = [(COMMAND_CHAR_UUID, ''{"command": "previous"}'')]\<close>
    by code_simp
  have w: "written idle_transport = []" by (simp add: idle_transport_def)
  from dispatcher_sends_exact_fields [of idle_transport "''prev''"]
  have "\<exists>c. spec_command_fields c
          \<and> written (fst (interactive_step idle_transport ''prev''))
              = [(COMMAND_CHAR_UUID, dumps c)]"
    unfolding w e by simp
  with e show ?thesis by simp
qed

end
